theory Spec2Isabelle
  imports Main "HOL-Library.Char_ord" "HOL-Library.List_Lexorder"
begin

section \<open>JavaScript values\<close>

text \<open>
  The client of \<^verbatim>\<open>src/api.js\<close> passes request bodies, query parameters and response
  payloads around as plain JavaScript values. They are modelled by one datatype. Strings
  are byte strings (UTF-8); an object is the list of its own properties in property
  order, with distinct keys; \<open>JNum\<close> stands for an integer-valued number below
  \<open>10^21\<close> in magnitude, the range in which JavaScript prints a number as its
  decimal digits.
\<close>

datatype jsval =
    JUndefined
  | JNull
  | JBool bool
  | JNum int
  | JStr string
  | JArr "jsval list"
  | JObj "(string \<times> jsval) list"

text \<open>The test \<^verbatim>\<open>if (v)\<close>, \<^verbatim>\<open>v ? a : b\<close>, \<^verbatim>\<open>!v\<close>: ToBoolean.\<close>

fun truthy :: "jsval \<Rightarrow> bool" where
  "truthy JUndefined = False"
| "truthy JNull = False"
| "truthy (JBool b) = b"
| "truthy (JNum n) = (n \<noteq> 0)"
| "truthy (JStr s) = (s \<noteq> [])"
| "truthy (JArr xs) = True"
| "truthy (JObj kvs) = True"

text \<open>\<^verbatim>\<open>a || b\<close>\<close>

definition js_or :: "jsval \<Rightarrow> jsval \<Rightarrow> jsval" where
  "js_or a b = (if truthy a then a else b)"

text \<open>\<^verbatim>\<open>Array.prototype.join\<close> on strings.\<close>

fun join :: "string \<Rightarrow> string list \<Rightarrow> string" where
  "join sep [] = []"
| "join sep [x] = x"
| "join sep (x # y # ys) = x @ sep @ join sep (y # ys)"

subsection \<open>Numbers and bytes as text\<close>

definition digit_char :: "nat \<Rightarrow> char" where
  "digit_char d = ''0123456789'' ! d"

fun show_nat :: "nat \<Rightarrow> string" where
  "show_nat n = (if n < 10 then [digit_char n] else show_nat (n div 10) @ [digit_char (n mod 10)])"

declare show_nat.simps [simp del]

definition show_int :: "int \<Rightarrow> string" where
  "show_int i = (if i < 0 then CHR ''-'' # show_nat (nat (- i)) else show_nat (nat i))"

definition hexdigit :: "nat \<Rightarrow> char" where
  "hexdigit d = ''0123456789abcdef'' ! d"

definition HEXDIGIT :: "nat \<Rightarrow> char" where
  "HEXDIGIT d = ''0123456789ABCDEF'' ! d"

text \<open>\<^verbatim>\<open>digest('hex')\<close>, \<^verbatim>\<open>Buffer.toString('hex')\<close>: two lowercase digits a byte.\<close>

definition hex :: "string \<Rightarrow> string" where
  "hex bs = concat (map (\<lambda>c. [hexdigit ((of_char c :: nat) div 16), hexdigit ((of_char c :: nat) mod 16)]) bs)"

subsection \<open>JSON.stringify\<close>

text \<open>
  QuoteJSONString: the double quote and the backslash are escaped, a control character
  below 0x20 is written \<^verbatim>\<open>\b \t \n \f \r\<close> or \<^verbatim>\<open>\u00XX\<close>, every other
  byte is copied.
\<close>

definition json_escape :: "char \<Rightarrow> string" where
  "json_escape c =
     (let n = (of_char c :: nat) in
      if n = 0x22 then [CHR 0x5C, CHR 0x22]
      else if n = 0x5C then [CHR 0x5C, CHR 0x5C]
      else if n = 8 then [CHR 0x5C, CHR ''b'']
      else if n = 12 then [CHR 0x5C, CHR ''f'']
      else if n = 10 then [CHR 0x5C, CHR ''n'']
      else if n = 13 then [CHR 0x5C, CHR ''r'']
      else if n = 9 then [CHR 0x5C, CHR ''t'']
      else if n < 32 then
        [CHR 0x5C, CHR ''u'', CHR ''0'', CHR ''0'', hexdigit (n div 16), hexdigit (n mod 16)]
      else [c])"

definition json_quote :: "string \<Rightarrow> string" where
  "json_quote s = CHR 0x22 # concat (map json_escape s) @ [CHR 0x22]"

text \<open>
  \<^verbatim>\<open>JSON.stringify(v)\<close> with no replacer and no indent. \<open>None\<close> is the result
  \<^verbatim>\<open>undefined\<close>: an undefined value has no serialization, is left out of an object and
  is written \<^verbatim>\<open>null\<close> inside an array.
\<close>

fun JSON_stringify :: "jsval \<Rightarrow> string option" where
  "JSON_stringify JUndefined = None"
| "JSON_stringify JNull = Some ''null''"
| "JSON_stringify (JBool b) = Some (if b then ''true'' else ''false'')"
| "JSON_stringify (JNum n) = Some (show_int n)"
| "JSON_stringify (JStr s) = Some (json_quote s)"
| "JSON_stringify (JArr xs) =
     Some (''['' @ join '',''
        (map (\<lambda>x. case JSON_stringify x of None \<Rightarrow> ''null'' | Some s \<Rightarrow> s) xs) @ '']'')"
| "JSON_stringify (JObj kvs) =
     Some (''{'' @ join '',''
        (concat (map (\<lambda>(k, v). case JSON_stringify v of
                                  None \<Rightarrow> []
                                | Some s \<Rightarrow> [json_quote k @ '':'' @ s]) kvs)) @ ''}'')"

text \<open>The same result as a JavaScript value (a string or \<^verbatim>\<open>undefined\<close>).\<close>

definition JSON_stringify_js :: "jsval \<Rightarrow> jsval" where
  "JSON_stringify_js v = (case JSON_stringify v of None \<Rightarrow> JUndefined | Some s \<Rightarrow> JStr s)"

subsection \<open>String conversion, property access, URI encoding\<close>

text \<open>ToString, as a template literal \<^verbatim>\<open>`${v}`\<close> applies it.\<close>

fun js_to_string :: "jsval \<Rightarrow> string" where
  "js_to_string JUndefined = ''undefined''"
| "js_to_string JNull = ''null''"
| "js_to_string (JBool b) = (if b then ''true'' else ''false'')"
| "js_to_string (JNum n) = show_int n"
| "js_to_string (JStr s) = s"
| "js_to_string (JArr xs) =
     join '','' (map (\<lambda>x. if x = JUndefined \<or> x = JNull then [] else js_to_string x) xs)"
| "js_to_string (JObj kvs) = ''[object Object]''"

text \<open>
  \<^verbatim>\<open>v.k\<close> for the property names this client reads (\<^verbatim>\<open>quantumTasks\<close>,
  \<^verbatim>\<open>devices\<close>, \<^verbatim>\<open>jobs\<close>, \<^verbatim>\<open>message\<close>, \<^verbatim>\<open>Message\<close>), none of which a
  primitive or an array has. \<open>None\<close> is the TypeError of reading a property of
  \<^verbatim>\<open>null\<close> or \<^verbatim>\<open>undefined\<close>.
\<close>

fun get_prop :: "jsval \<Rightarrow> string \<Rightarrow> jsval option" where
  "get_prop JUndefined k = None"
| "get_prop JNull k = None"
| "get_prop (JObj kvs) k = Some (case map_of kvs k of None \<Rightarrow> JUndefined | Some v \<Rightarrow> v)"
| "get_prop v k = Some JUndefined"

text \<open>\<^verbatim>\<open>v?.k\<close>\<close>

definition opt_prop :: "jsval \<Rightarrow> string \<Rightarrow> jsval" where
  "opt_prop v k = (case get_prop v k of None \<Rightarrow> JUndefined | Some x \<Rightarrow> x)"

text \<open>
  \<^verbatim>\<open>encodeURIComponent\<close> on a byte string: letters, digits and \<^verbatim>\<open>- _ . ! ~ * ' ( )\<close>
  are kept, every other byte becomes \<^verbatim>\<open>%XX\<close> in upper-case hexadecimal.
\<close>

definition uri_unreserved :: "char \<Rightarrow> bool" where
  "uri_unreserved c =
     (let n = (of_char c :: nat) in
      (65 \<le> n \<and> n \<le> 90) \<or> (97 \<le> n \<and> n \<le> 122) \<or> (48 \<le> n \<and> n \<le> 57) \<or>
      c \<in> set ''-_.!~*()'' \<or> n = 0x27)"

definition encodeURIComponent :: "string \<Rightarrow> string" where
  "encodeURIComponent s =
     concat (map (\<lambda>c. if uri_unreserved c then [c]
                       else [CHR ''%'', HEXDIGIT ((of_char c :: nat) div 16),
                             HEXDIGIT ((of_char c :: nat) mod 16)]) s)"

section \<open>Request signing (AWS Signature Version 4)\<close>

text \<open>
  Node's \<^verbatim>\<open>crypto\<close> module is a library the client calls: its SHA-256 and
  HMAC-SHA256 are parameters of the model, as functions from bytes to the raw digest.
  \<open>sha256 cr m\<close> is \<^verbatim>\<open>crypto.createHash('sha256').update(m).digest()\<close> and
  \<open>hmac_sha256 cr k m\<close> is \<^verbatim>\<open>crypto.createHmac('sha256', k).update(m).digest()\<close>.
\<close>

record crypto =
  sha256 :: "string \<Rightarrow> string"
  hmac_sha256 :: "string \<Rightarrow> string \<Rightarrow> string"

definition SERVICE :: string where
  "SERVICE = ''braket''"

definition sign :: "crypto \<Rightarrow> string \<Rightarrow> string \<Rightarrow> string" where
  "sign cr key msg = hmac_sha256 cr key msg"

definition getSignatureKey :: "crypto \<Rightarrow> string \<Rightarrow> string \<Rightarrow> string \<Rightarrow> string \<Rightarrow> string" where
  "getSignatureKey cr key dateStamp region service =
     (let kDate = sign cr (''AWS4'' @ key) dateStamp;
          kRegion = sign cr kDate region;
          kService = sign cr kRegion service;
          kSigning = sign cr kService ''aws4_request''
      in kSigning)"

text \<open>
  \<^verbatim>\<open>getAmzDate\<close> reads the clock; the model takes what
  \<^verbatim>\<open>new Date().toISOString()\<close> returned and applies
  \<^verbatim>\<open>.replace(/[:-]|\.\d{3}/g, '')\<close>: scanning from the left, a colon or a hyphen is
  dropped, a dot followed by three digits is dropped with them, anything else is kept.
\<close>

definition is_digit :: "char \<Rightarrow> bool" where
  "is_digit c = (48 \<le> (of_char c :: nat) \<and> (of_char c :: nat) \<le> 57)"

fun strip_date :: "string \<Rightarrow> string" where
  "strip_date [] = []"
| "strip_date (c # cs) =
     (if c = CHR '':'' \<or> c = CHR ''-'' then strip_date cs
      else if c = CHR ''.'' \<and> 3 \<le> length cs \<and> is_digit (cs ! 0) \<and> is_digit (cs ! 1) \<and> is_digit (cs ! 2)
        then strip_date (drop 3 cs)
      else c # strip_date cs)"

definition getAmzDate :: "string \<Rightarrow> string" where
  "getAmzDate isoString = strip_date isoString"

text \<open>A configuration value or option string as a condition: set and not empty.\<close>

definition present :: "string option \<Rightarrow> bool" where
  "present v = (case v of None \<Rightarrow> False | Some s \<Rightarrow> s \<noteq> [])"

text \<open>\<^verbatim>\<open>v || d\<close> on such a value.\<close>

definition str_or :: "string option \<Rightarrow> string \<Rightarrow> string" where
  "str_or v d = (case v of None \<Rightarrow> d | Some s \<Rightarrow> if s \<noteq> [] then s else d)"

text \<open>\<^verbatim>\<open>body ? JSON.stringify(body) : ''\<close>\<close>

definition body_string :: "jsval \<Rightarrow> string option" where
  "body_string body = (if truthy body then JSON_stringify body else Some [])"

text \<open>
  The object \<^verbatim>\<open>headers\<close> of \<^verbatim>\<open>signedRequest\<close> before the authorization header is
  added, in property order.
\<close>

definition build_headers :: "string \<Rightarrow> string \<Rightarrow> string \<Rightarrow> string option \<Rightarrow> (string \<times> string) list" where
  "build_headers host amzDate contentHash sessionToken =
     [(''content-type'', ''application/json''),
      (''host'', host),
      (''x-amz-date'', amzDate),
      (''x-amz-content-sha256'', contentHash)]
     @ (case sessionToken of
          None \<Rightarrow> []
        | Some t \<Rightarrow> if t \<noteq> [] then [(''x-amz-security-token'', t)] else [])"

text \<open>\<^verbatim>\<open>headers[k]\<close> inside a template literal.\<close>

definition header_value :: "(string \<times> string) list \<Rightarrow> string \<Rightarrow> string" where
  "header_value hs k = (case map_of hs k of None \<Rightarrow> ''undefined'' | Some v \<Rightarrow> v)"

text \<open>\<^verbatim>\<open>Object.keys(headers).sort()\<close>: the default sort, by code unit.\<close>

definition sorted_keys :: "(string \<times> string) list \<Rightarrow> string list" where
  "sorted_keys hs = sort (map fst hs)"

definition signedHeaders_of :: "(string \<times> string) list \<Rightarrow> string" where
  "signedHeaders_of hs = join '';'' (sorted_keys hs)"

definition canonicalHeaders_of :: "(string \<times> string) list \<Rightarrow> string" where
  "canonicalHeaders_of hs =
     join [] (map (\<lambda>k. k @ '':'' @ header_value hs k @ [CHR 0x0A]) (sorted_keys hs))"

definition canonicalRequest_of :: "string \<Rightarrow> string \<Rightarrow> (string \<times> string) list \<Rightarrow> string \<Rightarrow> string" where
  "canonicalRequest_of meth path hs contentHash =
     join [CHR 0x0A] [meth, path, [], canonicalHeaders_of hs, signedHeaders_of hs, contentHash]"

definition credentialScope_of :: "string \<Rightarrow> string \<Rightarrow> string" where
  "credentialScope_of dateStamp region = dateStamp @ ''/'' @ region @ ''/'' @ SERVICE @ ''/aws4_request''"

definition stringToSign_of :: "crypto \<Rightarrow> string \<Rightarrow> string \<Rightarrow> string \<Rightarrow> string" where
  "stringToSign_of cr amzDate scope creq =
     join [CHR 0x0A] [''AWS4-HMAC-SHA256'', amzDate, scope, hex (sha256 cr creq)]"

record signed =
  endpoint :: string
  headers :: "(string \<times> string) list"
  bodyStr :: string

datatype js_failure = TypeError

text \<open>
  \<^verbatim>\<open>signedRequest({ method, path, body, region, accessKeyId, secretAccessKey,
  sessionToken })\<close>, with the clock reading \<open>now\<close>. When \<^verbatim>\<open>JSON.stringify\<close>
  returns \<^verbatim>\<open>undefined\<close>, \<^verbatim>\<open>update(bodyStr)\<close> throws a TypeError.
\<close>

definition signedRequest ::
  "crypto \<Rightarrow> string \<Rightarrow> string \<Rightarrow> string \<Rightarrow> jsval \<Rightarrow> string \<Rightarrow> string \<Rightarrow> string \<Rightarrow> string option
     \<Rightarrow> js_failure + signed" where
  "signedRequest cr now meth path body region accessKeyId secretAccessKey sessionToken =
     (let host = ''braket.'' @ region @ ''.amazonaws.com'';
          endpoint = ''https://'' @ host;
          amzDate = getAmzDate now;
          dateStamp = take 8 amzDate
      in case body_string body of
           None \<Rightarrow> Inl TypeError
         | Some b \<Rightarrow>
            (let bodyStr = b;
                 contentHash = hex (sha256 cr bodyStr);
                 headers = build_headers host amzDate contentHash sessionToken;
                 signedHeaders = signedHeaders_of headers;
                 canonicalRequest = canonicalRequest_of meth path headers contentHash;
                 credentialScope = credentialScope_of dateStamp region;
                 stringToSign = stringToSign_of cr amzDate credentialScope canonicalRequest;
                 signingKey = getSignatureKey cr secretAccessKey dateStamp region SERVICE;
                 signature = hex (hmac_sha256 cr signingKey stringToSign);
                 authorization = ''AWS4-HMAC-SHA256 Credential='' @ accessKeyId @ ''/'' @ credentialScope
                    @ '', SignedHeaders='' @ signedHeaders @ '', Signature='' @ signature
             in Inr \<lparr>endpoint = endpoint @ path,
                     headers = headers @ [(''authorization'', authorization)],
                     bodyStr = bodyStr\<rparr>))"

section \<open>The authenticated client\<close>

text \<open>
  The HTTP transport (axios) and the configuration store (conf) are libraries: the
  model sees them through a \<open>world\<close>. \<open>conf w k\<close> is \<^verbatim>\<open>getConfig(k)\<close>,
  \<open>None\<close> for \<^verbatim>\<open>undefined\<close>; the command line stores option strings only.
  \<open>clock w\<close> is what \<^verbatim>\<open>new Date().toISOString()\<close> returns. \<open>axios w req\<close> is the
  outcome of the call: \<open>Inr\<close> the response the promise resolves to (a 2xx status
  under axios's defaults), \<open>Inl\<close> the error it rejects with.
\<close>

record http_request =
  req_method :: string
  req_url :: string
  req_headers :: "(string \<times> string) list"
  req_data :: "string option"
  req_params :: jsval

record http_response =
  status :: int
  data :: jsval

text \<open>
  A rejection: \<^verbatim>\<open>error.response\<close> is set when the server answered with a status
  outside 2xx, \<^verbatim>\<open>error.request\<close> when the request was sent.
\<close>

record axios_error =
  response :: "http_response option"
  request :: bool
  message :: string

record world =
  conf :: "string \<Rightarrow> string option"
  clock :: string
  axios :: "http_request \<Rightarrow> axios_error + http_response"

text \<open>What a call throws: \<^verbatim>\<open>new Error(msg)\<close>, a TypeError, or the caught error again.\<close>

datatype js_error = Error string | Failure js_failure | Rethrown axios_error

text \<open>
  The effects of a call, in order: reading the clock (the signer's only effect) and
  handing a request to the transport.
\<close>

datatype event = ClockRead | HttpCall http_request

type_synonym 'a outcome = "(js_error + 'a) \<times> event list"

definition handleApiError :: "axios_error \<Rightarrow> js_error" where
  "handleApiError error =
     (case response error of
        Some r \<Rightarrow>
          (let status = status r; data = data r in
           if status = 401 \<or> status = 403 then
             Error ''Authentication failed. Check your AWS credentials.''
           else if status = 404 then Error ''Resource not found.''
           else if status = 429 then Error ''Rate limit exceeded. Please wait before retrying.''
           else
             (let message = js_or (js_or (opt_prop data ''message'') (opt_prop data ''Message''))
                                  (JSON_stringify_js data)
              in Error (''API Error ('' @ show_int status @ ''): '' @ js_to_string message)))
      | None \<Rightarrow>
          if request error then
            Error ''No response from AWS Braket API. Check your internet connection and region.''
          else Rethrown error)"

definition credentials_message :: string where
  "credentials_message =
     ''AWS credentials not configured. Run: awsbraket config set --access-key-id <id> --secret-access-key <secret>''"

text \<open>The argument of the \<^verbatim>\<open>axios({...})\<close> call.\<close>

definition axios_config :: "string \<Rightarrow> signed \<Rightarrow> jsval \<Rightarrow> http_request" where
  "axios_config meth sg params =
     \<lparr>req_method = meth,
      req_url = endpoint sg,
      req_headers = headers sg,
      req_data = (if bodyStr sg \<noteq> [] then Some (bodyStr sg) else None),
      req_params = js_or params JUndefined\<rparr>"

text \<open>
  \<^verbatim>\<open>apiRequest(method, path, body = null, params = null)\<close>. The signer runs outside the
  \<^verbatim>\<open>try\<close> block, so what it throws propagates as it is.
\<close>

definition apiRequest :: "crypto \<Rightarrow> world \<Rightarrow> string \<Rightarrow> string \<Rightarrow> jsval \<Rightarrow> jsval \<Rightarrow> jsval outcome" where
  "apiRequest cr w meth path body0 params0 =
     (let body = (if body0 = JUndefined then JNull else body0);
          params = (if params0 = JUndefined then JNull else params0);
          region = str_or (conf w ''region'') ''us-east-1'';
          accessKeyId = conf w ''accessKeyId'';
          secretAccessKey = conf w ''secretAccessKey'';
          sessionToken = conf w ''sessionToken''
      in if \<not> present accessKeyId \<or> \<not> present secretAccessKey then
           (Inl (Error credentials_message), [])
         else
           (case signedRequest cr (clock w) meth path body region
                   (the accessKeyId) (the secretAccessKey) sessionToken of
              Inl f \<Rightarrow> (Inl (Failure f), [ClockRead])
            | Inr sg \<Rightarrow>
               (let req = axios_config meth sg params in
                case axios w req of
                  Inr resp \<Rightarrow> (Inr (data resp), [ClockRead, HttpCall req])
                | Inl error \<Rightarrow> (Inl (handleApiError error), [ClockRead, HttpCall req]))))"

subsection \<open>Quantum tasks\<close>

text \<open>
  \<^verbatim>\<open>data.field || []\<close> on the outcome of a list call; reading the field of
  \<^verbatim>\<open>null\<close> or \<^verbatim>\<open>undefined\<close> throws.
\<close>

definition list_field :: "string \<Rightarrow> jsval outcome \<Rightarrow> jsval outcome" where
  "list_field k res =
     (case res of
        (Inl e, evs) \<Rightarrow> (Inl e, evs)
      | (Inr d, evs) \<Rightarrow>
          (case get_prop d k of
             None \<Rightarrow> (Inl (Failure TypeError), evs)
           | Some v \<Rightarrow> (Inr (js_or v (JArr [])), evs)))"

text \<open>\<^verbatim>\<open>listQuantumTasks({ deviceArn, status, maxResults = 10 } = {})\<close>\<close>

definition listQuantumTasks_body :: "jsval \<Rightarrow> jsval \<Rightarrow> jsval \<Rightarrow> jsval" where
  "listQuantumTasks_body deviceArn status0 maxResults0 =
     (let maxResults = (if maxResults0 = JUndefined then JNum 10 else maxResults0) in
      JObj ([(''maxResults'', maxResults)]
            @ (if truthy deviceArn then [(''deviceArn'', deviceArn)] else [])
            @ (if truthy status0 then
                 [(''filters'', JArr [JObj [(''name'', JStr ''status''), (''values'', JArr [status0])]])]
               else [])))"

definition listQuantumTasks :: "crypto \<Rightarrow> world \<Rightarrow> jsval \<Rightarrow> jsval \<Rightarrow> jsval \<Rightarrow> jsval outcome" where
  "listQuantumTasks cr w deviceArn status0 maxResults =
     list_field ''quantumTasks''
       (apiRequest cr w ''POST'' ''/quantum-tasks''
          (listQuantumTasks_body deviceArn status0 maxResults) JUndefined)"

definition getQuantumTask :: "crypto \<Rightarrow> world \<Rightarrow> jsval \<Rightarrow> jsval outcome" where
  "getQuantumTask cr w taskId =
     apiRequest cr w ''GET'' (''/quantum-tasks/'' @ encodeURIComponent (js_to_string taskId))
       JUndefined JUndefined"

text \<open>
  \<^verbatim>\<open>createQuantumTask({ deviceArn, shots, outputS3Bucket, outputS3KeyPrefix, action })\<close>:
  an action that is not a string is serialized first.
\<close>

definition createQuantumTask ::
  "crypto \<Rightarrow> world \<Rightarrow> jsval \<Rightarrow> jsval \<Rightarrow> jsval \<Rightarrow> jsval \<Rightarrow> jsval \<Rightarrow> jsval outcome" where
  "createQuantumTask cr w deviceArn shots outputS3Bucket outputS3KeyPrefix action =
     (let body = JObj [(''deviceArn'', deviceArn),
                       (''shots'', shots),
                       (''outputS3Bucket'', outputS3Bucket),
                       (''outputS3KeyPrefix'', outputS3KeyPrefix),
                       (''action'', case action of JStr s \<Rightarrow> JStr s | _ \<Rightarrow> JSON_stringify_js action)]
      in apiRequest cr w ''POST'' ''/quantum-tasks'' body JUndefined)"

definition cancelQuantumTask :: "crypto \<Rightarrow> world \<Rightarrow> jsval \<Rightarrow> jsval outcome" where
  "cancelQuantumTask cr w taskId =
     apiRequest cr w ''PUT''
       (''/quantum-tasks/'' @ encodeURIComponent (js_to_string taskId) @ ''/cancel'')
       JUndefined JUndefined"

subsection \<open>Devices\<close>

text \<open>\<^verbatim>\<open>listDevices({ type, provider, status } = {})\<close>\<close>

definition listDevices_body :: "jsval \<Rightarrow> jsval \<Rightarrow> jsval \<Rightarrow> jsval" where
  "listDevices_body type0 provider status0 =
     (let filters =
            (if truthy type0 then [JObj [(''name'', JStr ''deviceType''), (''values'', JArr [type0])]] else [])
          @ (if truthy provider then [JObj [(''name'', JStr ''providerName''), (''values'', JArr [provider])]] else [])
          @ (if truthy status0 then [JObj [(''name'', JStr ''deviceStatus''), (''values'', JArr [status0])]] else [])
      in JObj (if length filters \<noteq> 0 then [(''filters'', JArr filters)] else []))"

definition listDevices :: "crypto \<Rightarrow> world \<Rightarrow> jsval \<Rightarrow> jsval \<Rightarrow> jsval \<Rightarrow> jsval outcome" where
  "listDevices cr w type0 provider status0 =
     list_field ''devices''
       (apiRequest cr w ''POST'' ''/devices'' (listDevices_body type0 provider status0) JUndefined)"

definition getDevice :: "crypto \<Rightarrow> world \<Rightarrow> jsval \<Rightarrow> jsval outcome" where
  "getDevice cr w deviceArn =
     apiRequest cr w ''GET'' (''/devices/'' @ encodeURIComponent (js_to_string deviceArn))
       JUndefined JUndefined"

subsection \<open>Jobs\<close>

definition createJob ::
  "crypto \<Rightarrow> world \<Rightarrow> jsval \<Rightarrow> jsval \<Rightarrow> jsval \<Rightarrow> jsval \<Rightarrow> jsval \<Rightarrow> jsval \<Rightarrow> jsval outcome" where
  "createJob cr w algorithmSpecification instanceConfig jobName outputDataConfig roleArn checkpointConfig =
     (let body = JObj ([(''algorithmSpecification'', algorithmSpecification),
                        (''instanceConfig'', instanceConfig),
                        (''jobName'', jobName),
                        (''outputDataConfig'', outputDataConfig),
                        (''roleArn'', roleArn)]
                       @ (if truthy checkpointConfig then [(''checkpointConfig'', checkpointConfig)] else []))
      in apiRequest cr w ''POST'' ''/jobs'' body JUndefined)"

definition getJob :: "crypto \<Rightarrow> world \<Rightarrow> jsval \<Rightarrow> jsval outcome" where
  "getJob cr w jobName =
     apiRequest cr w ''GET'' (''/jobs/'' @ encodeURIComponent (js_to_string jobName))
       JUndefined JUndefined"

text \<open>\<^verbatim>\<open>listJobs({ maxResults = 10, state } = {})\<close>\<close>

definition listJobs_params :: "jsval \<Rightarrow> jsval \<Rightarrow> jsval" where
  "listJobs_params maxResults0 state =
     (let maxResults = (if maxResults0 = JUndefined then JNum 10 else maxResults0) in
      JObj ([(''maxResults'', maxResults)]
            @ (if truthy state then [(''filters'', JStr (''state:'' @ js_to_string state))] else [])))"

definition listJobs :: "crypto \<Rightarrow> world \<Rightarrow> jsval \<Rightarrow> jsval \<Rightarrow> jsval outcome" where
  "listJobs cr w maxResults state =
     list_field ''jobs'' (apiRequest cr w ''GET'' ''/jobs'' JNull (listJobs_params maxResults state))"

definition cancelJob :: "crypto \<Rightarrow> world \<Rightarrow> jsval \<Rightarrow> jsval outcome" where
  "cancelJob cr w jobName =
     apiRequest cr w ''PUT'' (''/jobs/'' @ encodeURIComponent (js_to_string jobName) @ ''/cancel'')
       JUndefined JUndefined"

section \<open>Worked environment\<close>

text \<open>
  Concrete stand-ins on which the statements below are run: two short functions in
  the place of the hash functions, and a world with credentials, a fixed clock and a
  transport that answers every request with the same outcome.
\<close>

definition lower_hex :: "char \<Rightarrow> bool" where
  "lower_hex c = (c \<in> set ''0123456789abcdef'')"

definition toy_crypto :: crypto where
  "toy_crypto = \<lparr>sha256 = (\<lambda>m. take 2 m), hmac_sha256 = (\<lambda>k m. take 1 k @ take 1 m)\<rparr>"

definition toy_conf :: "string \<Rightarrow> string option" where
  "toy_conf = map_of [(''accessKeyId'', ''AKID''), (''secretAccessKey'', ''SECRET'')]"

definition toy_world :: "(axios_error + http_response) \<Rightarrow> world" where
  "toy_world out = \<lparr>conf = toy_conf, clock = ''2026-11-03T06:46:12.345Z'', axios = (\<lambda>req. out)\<rparr>"

section \<open>Properties of the signer\<close>

lemma truthy_stringify: "truthy v \<Longrightarrow> \<exists>s. JSON_stringify v = Some s"
  by (cases v) auto

lemma body_string_total: "\<exists>s. body_string body = Some s"
  using truthy_stringify by (auto simp: body_string_def)

lemma hexdigit_lower: "d < 16 \<Longrightarrow> lower_hex (hexdigit d)"
  unfolding hexdigit_def lower_hex_def by (rule nth_mem) simp

lemma hex_lowercase: "list_all lower_hex (hex bs)"
proof (induction bs)
  case Nil
  show ?case by (simp add: hex_def)
next
  case (Cons c bs)
  have "(of_char c :: nat) < 256" by simp
  then have "(of_char c :: nat) div 16 < 16" by arith
  then have hi: "lower_hex (hexdigit ((of_char c :: nat) div 16))" by (rule hexdigit_lower)
  have lo: "lower_hex (hexdigit ((of_char c :: nat) mod 16))" by (rule hexdigit_lower) simp
  from Cons hi lo show ?case by (simp add: hex_def)
qed

lemma no_authorization_built:
  "map_of (build_headers host amzDate contentHash sessionToken) ''authorization'' = None"
  by (simp add: build_headers_def split: option.splits)

text \<open>
  Claim C1. The signer always returns, and the \<^verbatim>\<open>authorization\<close> header of what it
  returns is \<^verbatim>\<open>AWS4-HMAC-SHA256 Credential=\<close> accessKeyId \<^verbatim>\<open>/\<close> dateStamp \<^verbatim>\<open>/\<close>
  region \<^verbatim>\<open>/braket/aws4_request, SignedHeaders=\<close> signedHeaders \<^verbatim>\<open>, Signature=\<close>
  signature. The signature is the lowercase hexadecimal form of the HMAC-SHA256 of the
  string to sign under the key \<open>kSigning\<close>, the last of four chained HMAC-SHA256
  derivations that start from \<^verbatim>\<open>AWS4\<close> followed by the secret access key and run over
  the date stamp, the region, \<^verbatim>\<open>braket\<close> and \<^verbatim>\<open>aws4_request\<close>, each output being
  the key of the next.
\<close>

theorem signedRequest_authorization:
  "\<exists>sg. signedRequest cr now meth path body region accessKeyId secretAccessKey sessionToken = Inr sg \<and>
     (let amzDate = getAmzDate now;
          dateStamp = take 8 amzDate;
          contentHash = hex (sha256 cr (bodyStr sg));
          hs = build_headers (''braket.'' @ region @ ''.amazonaws.com'') amzDate contentHash sessionToken;
          scope = dateStamp @ ''/'' @ region @ ''/braket/aws4_request'';
          kDate = hmac_sha256 cr (''AWS4'' @ secretAccessKey) dateStamp;
          kRegion = hmac_sha256 cr kDate region;
          kService = hmac_sha256 cr kRegion ''braket'';
          kSigning = hmac_sha256 cr kService ''aws4_request'';
          signature = hex (hmac_sha256 cr kSigning
                        (stringToSign_of cr amzDate scope (canonicalRequest_of meth path hs contentHash)))
      in map_of (headers sg) ''authorization'' =
           Some (''AWS4-HMAC-SHA256 Credential='' @ accessKeyId @ ''/'' @ dateStamp @ ''/'' @ region
                 @ ''/braket/aws4_request, SignedHeaders='' @ signedHeaders_of hs
                 @ '', Signature='' @ signature)
         \<and> list_all lower_hex signature)"
proof -
  obtain b where b: "body_string body = Some b"
    using body_string_total by blast
  show ?thesis
    unfolding signedRequest_def Let_def b
    by (simp add: no_authorization_built map_add_def getSignatureKey_def sign_def SERVICE_def
        credentialScope_of_def hex_lowercase)
qed

lemma authorization_of_signedRequest:
  assumes "signedRequest cr now meth path body region accessKeyId secretAccessKey sessionToken = Inr sg"
  shows "map_of (headers sg) ''authorization'' =
     Some (''AWS4-HMAC-SHA256 Credential='' @ accessKeyId @ ''/'' @ take 8 (getAmzDate now) @ ''/'' @ region
           @ ''/braket/aws4_request, SignedHeaders=''
           @ signedHeaders_of (build_headers (''braket.'' @ region @ ''.amazonaws.com'') (getAmzDate now)
                 (hex (sha256 cr (bodyStr sg))) sessionToken)
           @ '', Signature=''
           @ hex (hmac_sha256 cr (getSignatureKey cr secretAccessKey (take 8 (getAmzDate now)) region ''braket'')
               (stringToSign_of cr (getAmzDate now)
                  (take 8 (getAmzDate now) @ ''/'' @ region @ ''/braket/aws4_request'')
                  (canonicalRequest_of meth path
                     (build_headers (''braket.'' @ region @ ''.amazonaws.com'') (getAmzDate now)
                        (hex (sha256 cr (bodyStr sg))) sessionToken)
                     (hex (sha256 cr (bodyStr sg)))))))"
proof -
  obtain b where b: "body_string body = Some b"
    using body_string_total by blast
  from assms show ?thesis
    unfolding signedRequest_def Let_def b
    by (auto simp add: no_authorization_built map_add_def SERVICE_def credentialScope_of_def)
qed

lemma signedHeaders_built:
  "signedHeaders_of (build_headers host amzDate contentHash sessionToken) =
     (if present sessionToken
      then ''content-type;host;x-amz-content-sha256;x-amz-date;x-amz-security-token''
      else ''content-type;host;x-amz-content-sha256;x-amz-date'')"
  by (simp add: signedHeaders_of_def sorted_keys_def build_headers_def present_def split: option.splits)

text \<open>
  Claim C3. The header object the signer builds and signs has exactly the names
  \<^verbatim>\<open>content-type\<close>, \<^verbatim>\<open>host\<close>, \<^verbatim>\<open>x-amz-date\<close>, \<^verbatim>\<open>x-amz-content-sha256\<close>, and
  \<^verbatim>\<open>x-amz-security-token\<close> exactly when a session token is present (set and not
  empty); the values are \<^verbatim>\<open>application/json\<close>, the host \<^verbatim>\<open>braket.<region>.amazonaws.com\<close>,
  the date, the content hash and the token. The token header is never there with an
  empty value. \<open>signedHeaders\<close> is the list of these names in lexicographic order,
  joined by semicolons. What the signer returns is this object followed by the
  \<^verbatim>\<open>authorization\<close> header computed from it.
\<close>

theorem signed_header_set:
  "map fst (build_headers host amzDate contentHash sessionToken) =
       [''content-type'', ''host'', ''x-amz-date'', ''x-amz-content-sha256'']
       @ (if present sessionToken then [''x-amz-security-token''] else [])
   \<and> map_of (build_headers host amzDate contentHash sessionToken) ''content-type'' = Some ''application/json''
   \<and> map_of (build_headers host amzDate contentHash sessionToken) ''host'' = Some host
   \<and> map_of (build_headers host amzDate contentHash sessionToken) ''x-amz-date'' = Some amzDate
   \<and> map_of (build_headers host amzDate contentHash sessionToken) ''x-amz-content-sha256'' = Some contentHash
   \<and> map_of (build_headers host amzDate contentHash sessionToken) ''x-amz-security-token''
       = (if present sessionToken then sessionToken else None)
   \<and> map_of (build_headers host amzDate contentHash sessionToken) ''x-amz-security-token'' \<noteq> Some []
   \<and> sorted_keys (build_headers host amzDate contentHash sessionToken) =
       [''content-type'', ''host'', ''x-amz-content-sha256'', ''x-amz-date'']
       @ (if present sessionToken then [''x-amz-security-token''] else [])
   \<and> sorted (sorted_keys (build_headers host amzDate contentHash sessionToken))
   \<and> signedHeaders_of (build_headers host amzDate contentHash sessionToken) =
       (if present sessionToken
        then ''content-type;host;x-amz-content-sha256;x-amz-date;x-amz-security-token''
        else ''content-type;host;x-amz-content-sha256;x-amz-date'')
   \<and> (\<exists>sg authorization.
         signedRequest cr now meth path body region accessKeyId secretAccessKey sessionToken = Inr sg
         \<and> headers sg = build_headers (''braket.'' @ region @ ''.amazonaws.com'') (getAmzDate now)
                            (hex (sha256 cr (bodyStr sg))) sessionToken
                         @ [(''authorization'', authorization)])"
proof -
  obtain b where b: "body_string body = Some b"
    using body_string_total by blast
  have 1: "map fst (build_headers host amzDate contentHash sessionToken) =
       [''content-type'', ''host'', ''x-amz-date'', ''x-amz-content-sha256'']
       @ (if present sessionToken then [''x-amz-security-token''] else [])"
    by (simp add: build_headers_def present_def split: option.splits)
  have v: "map_of (build_headers host amzDate contentHash sessionToken) ''content-type'' = Some ''application/json''"
    "map_of (build_headers host amzDate contentHash sessionToken) ''host'' = Some host"
    "map_of (build_headers host amzDate contentHash sessionToken) ''x-amz-date'' = Some amzDate"
    "map_of (build_headers host amzDate contentHash sessionToken) ''x-amz-content-sha256'' = Some contentHash"
    by (simp_all add: build_headers_def)
  have 2: "map_of (build_headers host amzDate contentHash sessionToken) ''x-amz-security-token''
       = (if present sessionToken then sessionToken else None)"
    by (simp add: build_headers_def present_def split: option.splits)
  have 3: "map_of (build_headers host amzDate contentHash sessionToken) ''x-amz-security-token'' \<noteq> Some []"
    unfolding 2 by (simp add: present_def split: option.splits)
  have 4: "sorted_keys (build_headers host amzDate contentHash sessionToken) =
       [''content-type'', ''host'', ''x-amz-content-sha256'', ''x-amz-date'']
       @ (if present sessionToken then [''x-amz-security-token''] else [])"
    by (simp add: sorted_keys_def build_headers_def present_def split: option.splits)
  have 5: "sorted (sorted_keys (build_headers host amzDate contentHash sessionToken))"
    by (simp add: sorted_keys_def)
  have 6: "\<exists>sg authorization.
         signedRequest cr now meth path body region accessKeyId secretAccessKey sessionToken = Inr sg
         \<and> headers sg = build_headers (''braket.'' @ region @ ''.amazonaws.com'') (getAmzDate now)
                            (hex (sha256 cr (bodyStr sg))) sessionToken
                         @ [(''authorization'', authorization)]"
    unfolding signedRequest_def Let_def b by simp
  from 1 v 2 3 4 5 6 signedHeaders_built show ?thesis by blast
qed

section \<open>Properties of the client\<close>

lemma snd_list_field: "snd (list_field k res) = snd res"
  by (cases res) (auto simp: list_field_def split: sum.splits option.splits)

lemma toy_credentials:
  "present (conf (toy_world out) ''accessKeyId'')"
  "present (conf (toy_world out) ''secretAccessKey'')"
  by (simp_all add: toy_world_def toy_conf_def present_def)

lemma apiRequest_sends:
  assumes "present (conf w ''accessKeyId'')" and "present (conf w ''secretAccessKey'')"
  shows "\<exists>sg. signedRequest cr (clock w) meth path (if body = JUndefined then JNull else body)
                 (str_or (conf w ''region'') ''us-east-1'')
                 (the (conf w ''accessKeyId'')) (the (conf w ''secretAccessKey''))
                 (conf w ''sessionToken'') = Inr sg
           \<and> snd (apiRequest cr w meth path body params) =
               [ClockRead, HttpCall (axios_config meth sg (if params = JUndefined then JNull else params))]"
proof -
  obtain b where b: "body_string (if body = JUndefined then JNull else body) = Some b"
    using body_string_total by blast
  then obtain sg where sg: "signedRequest cr (clock w) meth path (if body = JUndefined then JNull else body)
                 (str_or (conf w ''region'') ''us-east-1'')
                 (the (conf w ''accessKeyId'')) (the (conf w ''secretAccessKey''))
                 (conf w ''sessionToken'') = Inr sg"
    by (simp add: signedRequest_def Let_def)
  with assms show ?thesis
    by (simp add: apiRequest_def Let_def split: sum.splits)
qed

text \<open>
  Claim C2. With credentials configured, \<open>apiRequest\<close> signs and sends one request.
  The canonical request hashed into the string to sign is the method, the path, an
  empty line where the canonical query string would stand, the canonical headers, the
  signed header names and the content hash, joined by line feeds. The signed result
  \<open>sg\<close> is computed from the method, the path, the body, the configuration and the
  clock alone: the query parameters go to the transport only, beside it. The same
  holds for \<open>listJobs\<close>, whose \<^verbatim>\<open>maxResults\<close> and \<^verbatim>\<open>filters\<close> parameters are sent with
  a signature that was computed without them.
\<close>

theorem canonical_request_without_query:
  assumes "present (conf w ''accessKeyId'')" and "present (conf w ''secretAccessKey'')"
  shows "\<exists>sg sgj.
      signedRequest cr (clock w) meth path (if body = JUndefined then JNull else body)
          (str_or (conf w ''region'') ''us-east-1'')
          (the (conf w ''accessKeyId'')) (the (conf w ''secretAccessKey''))
          (conf w ''sessionToken'') = Inr sg
    \<and> snd (apiRequest cr w meth path body params) =
          [ClockRead, HttpCall (axios_config meth sg (if params = JUndefined then JNull else params))]
    \<and> (let region = str_or (conf w ''region'') ''us-east-1'';
            amzDate = getAmzDate (clock w);
            dateStamp = take 8 amzDate;
            contentHash = hex (sha256 cr (bodyStr sg));
            hs = build_headers (''braket.'' @ region @ ''.amazonaws.com'') amzDate contentHash
                   (conf w ''sessionToken'');
            creq = meth @ [CHR 0x0A] @ path @ [CHR 0x0A] @ [] @ [CHR 0x0A] @ canonicalHeaders_of hs
                   @ [CHR 0x0A] @ signedHeaders_of hs @ [CHR 0x0A] @ contentHash;
            sts = ''AWS4-HMAC-SHA256'' @ [CHR 0x0A] @ amzDate @ [CHR 0x0A]
                  @ dateStamp @ ''/'' @ region @ ''/braket/aws4_request'' @ [CHR 0x0A]
                  @ hex (sha256 cr creq)
        in canonicalRequest_of meth path hs contentHash = creq
         \<and> map_of (headers sg) ''authorization'' =
             Some (''AWS4-HMAC-SHA256 Credential='' @ the (conf w ''accessKeyId'') @ ''/'' @ dateStamp @ ''/''
                   @ region @ ''/braket/aws4_request, SignedHeaders='' @ signedHeaders_of hs
                   @ '', Signature=''
                   @ hex (hmac_sha256 cr
                       (getSignatureKey cr (the (conf w ''secretAccessKey'')) dateStamp region ''braket'') sts)))
    \<and> signedRequest cr (clock w) ''GET'' ''/jobs'' JNull
          (str_or (conf w ''region'') ''us-east-1'')
          (the (conf w ''accessKeyId'')) (the (conf w ''secretAccessKey''))
          (conf w ''sessionToken'') = Inr sgj
    \<and> snd (listJobs cr w maxResults state) =
          [ClockRead, HttpCall (axios_config ''GET'' sgj (listJobs_params maxResults state))]"
proof -
  obtain sg where sg: "signedRequest cr (clock w) meth path (if body = JUndefined then JNull else body)
          (str_or (conf w ''region'') ''us-east-1'')
          (the (conf w ''accessKeyId'')) (the (conf w ''secretAccessKey''))
          (conf w ''sessionToken'') = Inr sg"
    and ev: "snd (apiRequest cr w meth path body params) =
          [ClockRead, HttpCall (axios_config meth sg (if params = JUndefined then JNull else params))]"
    using apiRequest_sends [OF assms] by blast
  obtain sgj where sgj: "signedRequest cr (clock w) ''GET'' ''/jobs'' JNull
          (str_or (conf w ''region'') ''us-east-1'')
          (the (conf w ''accessKeyId'')) (the (conf w ''secretAccessKey''))
          (conf w ''sessionToken'') = Inr sgj"
    and evj: "snd (apiRequest cr w ''GET'' ''/jobs'' JNull (listJobs_params maxResults state)) =
          [ClockRead, HttpCall (axios_config ''GET'' sgj (listJobs_params maxResults state))]"
    using apiRequest_sends [OF assms, of cr "''GET''" "''/jobs''" JNull "listJobs_params maxResults state"]
    by (auto simp: listJobs_params_def Let_def)
  have lj: "snd (listJobs cr w maxResults state) =
          [ClockRead, HttpCall (axios_config ''GET'' sgj (listJobs_params maxResults state))]"
    by (simp add: listJobs_def snd_list_field evj)
  show ?thesis
    apply (rule exI [of _ sg], rule exI [of _ sgj])
    using sg ev sgj lj authorization_of_signedRequest [OF sg]
    by (simp add: Let_def canonicalRequest_of_def stringToSign_of_def)
qed

theorem canonical_request_without_query_witness:
  "present (conf (toy_world (Inr \<lparr>status = 200, data = JNull\<rparr>)) ''accessKeyId'')
   \<and> present (conf (toy_world (Inr \<lparr>status = 200, data = JNull\<rparr>)) ''secretAccessKey'')
   \<and> (\<exists>sgj. signedRequest toy_crypto ''2026-11-03T06:46:12.345Z'' ''GET'' ''/jobs'' JNull
                ''us-east-1'' ''AKID'' ''SECRET'' None = Inr sgj
        \<and> snd (listJobs toy_crypto (toy_world (Inr \<lparr>status = 200, data = JNull\<rparr>))
                  (JNum 5) (JStr ''RUNNING'')) =
          [ClockRead, HttpCall (axios_config ''GET'' sgj (listJobs_params (JNum 5) (JStr ''RUNNING'')))])"
proof -
  let ?w = "toy_world (Inr \<lparr>status = 200, data = JNull\<rparr>)"
  have c: "str_or (conf ?w ''region'') ''us-east-1'' = ''us-east-1''"
    "the (conf ?w ''accessKeyId'') = ''AKID''" "the (conf ?w ''secretAccessKey'') = ''SECRET''"
    "conf ?w ''sessionToken'' = None" "clock ?w = ''2026-11-03T06:46:12.345Z''"
    by (simp_all add: toy_world_def toy_conf_def str_or_def)
  note cred = toy_credentials [of "Inr \<lparr>status = 200, data = JNull\<rparr>"]
  from canonical_request_without_query [OF cred, where cr = toy_crypto and maxResults = "JNum 5"
      and state = "JStr ''RUNNING''"]
  obtain sgj where "signedRequest toy_crypto (clock ?w) ''GET'' ''/jobs'' JNull
          (str_or (conf ?w ''region'') ''us-east-1'')
          (the (conf ?w ''accessKeyId'')) (the (conf ?w ''secretAccessKey''))
          (conf ?w ''sessionToken'') = Inr sgj"
    and "snd (listJobs toy_crypto ?w (JNum 5) (JStr ''RUNNING'')) =
          [ClockRead, HttpCall (axios_config ''GET'' sgj (listJobs_params (JNum 5) (JStr ''RUNNING'')))]"
    by blast
  with cred show ?thesis
    unfolding c by blast
qed

lemma apiRequest_unconfigured:
  assumes "\<not> present (conf w ''accessKeyId'') \<or> \<not> present (conf w ''secretAccessKey'')"
  shows "apiRequest cr w meth path body params = (Inl (Error credentials_message), [])"
  using assms by (auto simp add: apiRequest_def Let_def)

lemma list_field_throw: "list_field k (Inl e, evs) = (Inl e, evs)"
  by (simp add: list_field_def)

text \<open>
  Claim C4. When the access key id or the secret access key is missing from the
  configuration (or empty), \<open>apiRequest\<close> and each of the ten operations throw the
  credentials-not-configured error, and nothing has happened before it: the list of
  effects is empty, so the signer has not run (it would have read the clock) and no
  request has been handed to the transport.
\<close>

theorem unconfigured_fails_before_signing:
  assumes "\<not> present (conf w ''accessKeyId'') \<or> \<not> present (conf w ''secretAccessKey'')"
  shows "apiRequest cr w meth path body params = (Inl (Error credentials_message), [])
    \<and> listQuantumTasks cr w deviceArn status0 maxResults = (Inl (Error credentials_message), [])
    \<and> getQuantumTask cr w taskId = (Inl (Error credentials_message), [])
    \<and> createQuantumTask cr w deviceArn shots outputS3Bucket outputS3KeyPrefix action
         = (Inl (Error credentials_message), [])
    \<and> cancelQuantumTask cr w taskId = (Inl (Error credentials_message), [])
    \<and> listDevices cr w type0 provider status0 = (Inl (Error credentials_message), [])
    \<and> getDevice cr w deviceArn = (Inl (Error credentials_message), [])
    \<and> createJob cr w algorithmSpecification instanceConfig jobName outputDataConfig roleArn checkpointConfig
         = (Inl (Error credentials_message), [])
    \<and> getJob cr w jobName = (Inl (Error credentials_message), [])
    \<and> listJobs cr w maxResults state = (Inl (Error credentials_message), [])
    \<and> cancelJob cr w jobName = (Inl (Error credentials_message), [])
    \<and> credentials_message =
        ''AWS credentials not configured. Run: awsbraket config set --access-key-id <id> --secret-access-key <secret>''"
  by (simp add: apiRequest_unconfigured [OF assms] list_field_throw listQuantumTasks_def
      getQuantumTask_def createQuantumTask_def cancelQuantumTask_def listDevices_def getDevice_def
      createJob_def getJob_def listJobs_def cancelJob_def Let_def credentials_message_def [symmetric])

theorem unconfigured_fails_before_signing_witness:
  "conf (toy_world (Inr \<lparr>status = 200, data = JNull\<rparr>)\<lparr>conf := map_of [(''accessKeyId'', ''AKID'')]\<rparr>) ''secretAccessKey'' = None
   \<and> getDevice toy_crypto (toy_world (Inr \<lparr>status = 200, data = JNull\<rparr>)\<lparr>conf := map_of [(''accessKeyId'', ''AKID'')]\<rparr>)
         (JStr ''arn'')
       = (Inl (Error credentials_message), [])"
proof -
  let ?w = "toy_world (Inr \<lparr>status = 200, data = JNull\<rparr>)\<lparr>conf := map_of [(''accessKeyId'', ''AKID'')]\<rparr>"
  have h: "\<not> present (conf ?w ''accessKeyId'') \<or> \<not> present (conf ?w ''secretAccessKey'')"
    by (simp add: present_def)
  from unconfigured_fails_before_signing [OF h, where cr = toy_crypto and deviceArn = "JStr ''arn''"]
  show ?thesis by simp
qed

lemma apiRequest_rejected:
  assumes "present (conf w ''accessKeyId'')" and "present (conf w ''secretAccessKey'')"
    and "\<forall>req. axios w req = Inl e"
  shows "fst (apiRequest cr w meth path body params) = Inl (handleApiError e)"
proof -
  obtain b where b: "body_string (if body = JUndefined then JNull else body) = Some b"
    using body_string_total by blast
  with assms show ?thesis
    by (simp add: apiRequest_def signedRequest_def Let_def split: sum.splits)
qed

text \<open>
  Claim C5. \<open>handleApiError\<close> classifies what the transport rejected with. With a
  response: status 401 or 403 throws the authentication message, 404 the not-found
  message, 429 the rate-limit message, and any other status a generic error
  \<^verbatim>\<open>API Error (<status>): <text>\<close>, where the text is the response's message field
  (\<^verbatim>\<open>message\<close>, or else \<^verbatim>\<open>Message\<close>) when it is there and truthy, and the JSON
  serialization of the response body otherwise. With no response but a request that
  was sent, it throws the no-response message; any other error is thrown again
  unchanged. \<open>apiRequest\<close> throws what \<open>handleApiError\<close> throws whenever the
  transport rejects.
\<close>

theorem handleApiError_classifies:
  "(response e = Some r \<and> (status r = 401 \<or> status r = 403) \<longrightarrow>
      handleApiError e = Error ''Authentication failed. Check your AWS credentials.'')
   \<and> (response e = Some r \<and> status r = 404 \<longrightarrow> handleApiError e = Error ''Resource not found.'')
   \<and> (response e = Some r \<and> status r = 429 \<longrightarrow>
      handleApiError e = Error ''Rate limit exceeded. Please wait before retrying.'')
   \<and> (response e = Some r \<and> status r \<notin> {401, 403, 404, 429} \<longrightarrow>
      handleApiError e =
        Error (''API Error ('' @ show_int (status r) @ ''): ''
               @ js_to_string
                   (if truthy (opt_prop (data r) ''message'') then opt_prop (data r) ''message''
                    else if truthy (opt_prop (data r) ''Message'') then opt_prop (data r) ''Message''
                    else JSON_stringify_js (data r))))
   \<and> (response e = Some r \<and> status r \<notin> {401, 403, 404, 429} \<and> data r = JObj kvs
        \<and> map_of kvs ''message'' = Some (JStr m) \<and> m \<noteq> [] \<longrightarrow>
      handleApiError e = Error (''API Error ('' @ show_int (status r) @ ''): '' @ m))
   \<and> (response e = Some r \<and> status r \<notin> {401, 403, 404, 429}
        \<and> \<not> truthy (opt_prop (data r) ''message'') \<and> \<not> truthy (opt_prop (data r) ''Message'')
        \<and> JSON_stringify (data r) = Some s \<longrightarrow>
      handleApiError e = Error (''API Error ('' @ show_int (status r) @ ''): '' @ s))
   \<and> (response e = None \<and> request e \<longrightarrow>
      handleApiError e =
        Error ''No response from AWS Braket API. Check your internet connection and region.'')
   \<and> (response e = None \<and> \<not> request e \<longrightarrow> handleApiError e = Rethrown e)
   \<and> (present (conf w ''accessKeyId'') \<and> present (conf w ''secretAccessKey'')
        \<and> (\<forall>req. axios w req = Inl e) \<longrightarrow>
      fst (apiRequest cr w meth path body params) = Inl (handleApiError e))"
proof -
  have "present (conf w ''accessKeyId'') \<and> present (conf w ''secretAccessKey'')
        \<and> (\<forall>req. axios w req = Inl e) \<longrightarrow>
      fst (apiRequest cr w meth path body params) = Inl (handleApiError e)"
    using apiRequest_rejected by blast
  then show ?thesis
    by (simp add: handleApiError_def Let_def js_or_def opt_prop_def JSON_stringify_js_def)
qed

theorem handleApiError_classifies_witness:
  "handleApiError \<lparr>response = Some \<lparr>status = 500, data = JObj [(''message'', JStr ''boom'')]\<rparr>,
                   request = True, message = ''Request failed with status code 500''\<rparr>
     = Error ''API Error (500): boom''
   \<and> handleApiError \<lparr>response = Some \<lparr>status = 403, data = JNull\<rparr>,
                   request = True, message = ''Request failed with status code 403''\<rparr>
     = Error ''Authentication failed. Check your AWS credentials.''
   \<and> handleApiError \<lparr>response = None, request = True, message = ''timeout''\<rparr>
     = Error ''No response from AWS Braket API. Check your internet connection and region.''"
proof -
  let ?r = "\<lparr>status = 500, data = JObj [(''message'', JStr ''boom'')]\<rparr>"
  let ?e = "\<lparr>response = Some ?r, request = True, message = ''Request failed with status code 500''\<rparr>"
  let ?r3 = "\<lparr>status = 403, data = JNull\<rparr>"
  let ?e3 = "\<lparr>response = Some ?r3, request = True, message = ''Request failed with status code 403''\<rparr>"
  let ?n = "\<lparr>response = None, request = True, message = ''timeout''\<rparr>"
  have s: "show_int 500 = ''500''"
    by (simp add: show_int_def show_nat.simps digit_char_def)
  note inst = handleApiError_classifies [where s = "[]" and w = "toy_world (Inl ?n)" and cr = toy_crypto
      and meth = "''GET''" and path = "''/jobs''" and body = JNull and params = JNull]
  have 1: "handleApiError ?e = Error ''API Error (500): boom''"
    using inst [where e = ?e and r = ?r and kvs = "[(''message'', JStr ''boom'')]" and m = "''boom''",
        THEN conjunct2, THEN conjunct2, THEN conjunct2, THEN conjunct2, THEN conjunct1]
    by (simp add: s)
  have 2: "handleApiError ?e3 = Error ''Authentication failed. Check your AWS credentials.''"
    using inst [where e = ?e3 and r = ?r3 and kvs = "[]" and m = "[]", THEN conjunct1] by simp
  have 3: "handleApiError ?n = Error ''No response from AWS Braket API. Check your internet connection and region.''"
    using inst [where e = ?n and r = ?r3 and kvs = "[]" and m = "[]", THEN conjunct2, THEN conjunct2,
        THEN conjunct2, THEN conjunct2, THEN conjunct2, THEN conjunct2, THEN conjunct1]
    by simp
  from 1 2 3 show ?thesis by blast
qed

lemma show_nat_nonempty: "show_nat n \<noteq> []"
  by (subst show_nat.simps) simp

lemma stringify_nonempty: "truthy v \<Longrightarrow> JSON_stringify v = Some s \<Longrightarrow> s \<noteq> []"
  by (cases v) (auto simp: show_int_def show_nat_nonempty json_quote_def split: if_splits)

lemma signedRequest_facts:
  assumes "signedRequest cr now meth path body region accessKeyId secretAccessKey sessionToken = Inr sg"
  shows "body_string body = Some (bodyStr sg)"
    and "map_of (headers sg) ''x-amz-content-sha256'' = Some (hex (sha256 cr (bodyStr sg)))"
    and "map_of (headers sg) ''host'' = Some (''braket.'' @ region @ ''.amazonaws.com'')"
    and "endpoint sg = ''https://braket.'' @ region @ ''.amazonaws.com'' @ path"
proof -
  obtain b where b: "body_string body = Some b"
    using body_string_total by blast
  from assms have sg: "bodyStr sg = b"
    "headers sg = build_headers (''braket.'' @ region @ ''.amazonaws.com'') (getAmzDate now)
                     (hex (sha256 cr b)) sessionToken
                  @ [(''authorization'', the (map_of (headers sg) ''authorization''))]"
    "endpoint sg = ''https://braket.'' @ region @ ''.amazonaws.com'' @ path"
    unfolding signedRequest_def Let_def b by (auto simp: no_authorization_built map_add_def)
  show "body_string body = Some (bodyStr sg)" using b sg(1) by simp
  show "map_of (headers sg) ''x-amz-content-sha256'' = Some (hex (sha256 cr (bodyStr sg)))"
    by (subst sg(2)) (simp add: build_headers_def sg(1))
  show "map_of (headers sg) ''host'' = Some (''braket.'' @ region @ ''.amazonaws.com'')"
    by (subst sg(2)) (simp add: build_headers_def)
  show "endpoint sg = ''https://braket.'' @ region @ ''.amazonaws.com'' @ path" by (rule sg(3))
qed

lemma apiRequest_body:
  assumes "present (conf w ''accessKeyId'')" and "present (conf w ''secretAccessKey'')"
  shows "\<exists>req s. body_string (if body = JUndefined then JNull else body) = Some s
     \<and> snd (apiRequest cr w meth path body params) = [ClockRead, HttpCall req]
     \<and> req_data req = (if s = [] then None else Some s)
     \<and> map_of (req_headers req) ''x-amz-content-sha256'' = Some (hex (sha256 cr s))"
proof -
  obtain sg where sg: "signedRequest cr (clock w) meth path (if body = JUndefined then JNull else body)
          (str_or (conf w ''region'') ''us-east-1'')
          (the (conf w ''accessKeyId'')) (the (conf w ''secretAccessKey''))
          (conf w ''sessionToken'') = Inr sg"
    and ev: "snd (apiRequest cr w meth path body params) =
          [ClockRead, HttpCall (axios_config meth sg (if params = JUndefined then JNull else params))]"
    using apiRequest_sends [OF assms] by blast
  let ?req = "axios_config meth sg (if params = JUndefined then JNull else params)"
  have "body_string (if body = JUndefined then JNull else body) = Some (bodyStr sg)"
    and "req_data ?req = (if bodyStr sg = [] then None else Some (bodyStr sg))"
    and "map_of (req_headers ?req) ''x-amz-content-sha256'' = Some (hex (sha256 cr (bodyStr sg)))"
    using signedRequest_facts(1,2) [OF sg] by (simp_all add: axios_config_def)
  with ev show ?thesis by blast
qed

lemma apiRequest_resolved:
  assumes "present (conf w ''accessKeyId'')" and "present (conf w ''secretAccessKey'')"
    and "\<forall>req. axios w req = Inr resp"
  shows "fst (apiRequest cr w meth path body params) = Inr (data resp)"
proof -
  obtain b where b: "body_string (if body = JUndefined then JNull else body) = Some b"
    using body_string_total by blast
  with assms show ?thesis
    by (simp add: apiRequest_def signedRequest_def Let_def split: sum.splits)
qed

lemma fst_list_field:
  "fst res = Inr d \<Longrightarrow> d \<noteq> JNull \<Longrightarrow> d \<noteq> JUndefined \<Longrightarrow>
     fst (list_field k res) = Inr (js_or (opt_prop d k) (JArr []))"
  by (cases res; cases d) (auto simp: list_field_def opt_prop_def)

text \<open>
  Claim C6, as stated, fails for the three list operations: a successful response
  whose payload is an object with a \<^verbatim>\<open>quantumTasks\<close> list and a \<^verbatim>\<open>nextToken\<close> comes
  back from \<open>listQuantumTasks\<close> as the list alone.
\<close>

theorem list_operations_unwrap_counterexample:
  "fst (listQuantumTasks toy_crypto
          (toy_world (Inr \<lparr>status = 200,
                           data = JObj [(''quantumTasks'', JArr []), (''nextToken'', JStr ''abc'')]\<rparr>))
          JUndefined JUndefined JUndefined) = Inr (JArr [])
   \<and> fst (listQuantumTasks toy_crypto
          (toy_world (Inr \<lparr>status = 200,
                           data = JObj [(''quantumTasks'', JArr []), (''nextToken'', JStr ''abc'')]\<rparr>))
          JUndefined JUndefined JUndefined)
      \<noteq> Inr (JObj [(''quantumTasks'', JArr []), (''nextToken'', JStr ''abc'')])"
proof -
  let ?resp = "\<lparr>status = 200, data = JObj [(''quantumTasks'', JArr []), (''nextToken'', JStr ''abc'')]\<rparr>"
  have ax: "\<forall>req. axios (toy_world (Inr ?resp)) req = Inr ?resp"
    by (simp add: toy_world_def)
  have "fst (apiRequest toy_crypto (toy_world (Inr ?resp)) ''POST'' ''/quantum-tasks''
          (listQuantumTasks_body JUndefined JUndefined JUndefined) JUndefined) = Inr (data ?resp)"
    by (rule apiRequest_resolved [OF toy_credentials ax])
  then have "fst (listQuantumTasks toy_crypto (toy_world (Inr ?resp)) JUndefined JUndefined JUndefined)
      = Inr (js_or (opt_prop (data ?resp) ''quantumTasks'') (JArr []))"
    unfolding listQuantumTasks_def by (rule fst_list_field) simp_all
  then show ?thesis by (simp add: opt_prop_def js_or_def)
qed

text \<open>
  Claim C6, amended. On a successful response \<open>apiRequest\<close> and the get, create and
  cancel operations return the parsed payload unmodified. The three list operations
  return the payload's \<^verbatim>\<open>quantumTasks\<close>, \<^verbatim>\<open>devices\<close> or \<^verbatim>\<open>jobs\<close> field when it is
  truthy and an empty array otherwise, for a payload that is neither \<^verbatim>\<open>null\<close> nor
  \<^verbatim>\<open>undefined\<close>.
\<close>

theorem success_returns_payload:
  assumes "present (conf w ''accessKeyId'')" and "present (conf w ''secretAccessKey'')"
    and "\<forall>req. axios w req = Inr resp"
  shows "fst (apiRequest cr w meth path body params) = Inr (data resp)
    \<and> fst (getQuantumTask cr w taskId) = Inr (data resp)
    \<and> fst (createQuantumTask cr w deviceArn shots outputS3Bucket outputS3KeyPrefix action) = Inr (data resp)
    \<and> fst (cancelQuantumTask cr w taskId) = Inr (data resp)
    \<and> fst (getDevice cr w deviceArn) = Inr (data resp)
    \<and> fst (createJob cr w algorithmSpecification instanceConfig jobName outputDataConfig roleArn
              checkpointConfig) = Inr (data resp)
    \<and> fst (getJob cr w jobName) = Inr (data resp)
    \<and> fst (cancelJob cr w jobName) = Inr (data resp)
    \<and> (data resp \<noteq> JNull \<and> data resp \<noteq> JUndefined \<longrightarrow>
         fst (listQuantumTasks cr w deviceArn status0 maxResults)
           = Inr (js_or (opt_prop (data resp) ''quantumTasks'') (JArr []))
       \<and> fst (listDevices cr w type0 provider status0)
           = Inr (js_or (opt_prop (data resp) ''devices'') (JArr []))
       \<and> fst (listJobs cr w maxResults state)
           = Inr (js_or (opt_prop (data resp) ''jobs'') (JArr [])))"
proof -
  note ok = apiRequest_resolved [OF assms]
  have lists: "fst (list_field k (apiRequest cr w m p b q)) = Inr (js_or (opt_prop (data resp) k) (JArr []))"
    if "data resp \<noteq> JNull" "data resp \<noteq> JUndefined" for k m p b q
    using ok that by (rule fst_list_field)
  show ?thesis
    by (simp add: ok lists getQuantumTask_def createQuantumTask_def cancelQuantumTask_def
        getDevice_def createJob_def getJob_def cancelJob_def listQuantumTasks_def listDevices_def
        listJobs_def Let_def)
qed

theorem success_returns_payload_witness:
  "fst (getJob toy_crypto (toy_world (Inr \<lparr>status = 200, data = JObj [(''jobs'', JArr [JNum 1])]\<rparr>))
         (JStr ''j1'')) = Inr (JObj [(''jobs'', JArr [JNum 1])])
   \<and> fst (listJobs toy_crypto (toy_world (Inr \<lparr>status = 200, data = JObj [(''jobs'', JArr [JNum 1])]\<rparr>))
         JUndefined JUndefined) = Inr (JArr [JNum 1])"
proof -
  let ?resp = "\<lparr>status = 200, data = JObj [(''jobs'', JArr [JNum 1])]\<rparr>"
  have ax: "\<forall>req. axios (toy_world (Inr ?resp)) req = Inr ?resp"
    by (simp add: toy_world_def)
  from success_returns_payload [OF toy_credentials ax, where cr = toy_crypto and jobName = "JStr ''j1''"
      and maxResults = JUndefined and state = JUndefined]
  show ?thesis by (simp add: opt_prop_def js_or_def)
qed

lemma show_int_10: "show_int 10 = ''10''"
  by (simp add: show_int_def show_nat.simps digit_char_def)

lemma tasks_body_string:
  \<open>\<not> truthy deviceArn \<Longrightarrow>
   JSON_stringify (listQuantumTasks_body deviceArn (JStr ''COMPLETED'') (JNum 10)) =
     Some ''{"maxResults":10,"filters":[{"name":"status","values":["COMPLETED"]}]}''\<close>
  by (simp add: listQuantumTasks_body_def show_int_10 json_quote_def json_escape_def)

lemma body_string_object: "body_string (JObj kvs) = JSON_stringify (JObj kvs)"
  by (simp add: body_string_def)

lemma tasks_body_object: "\<exists>kvs. listQuantumTasks_body deviceArn status0 maxResults = JObj kvs"
  by (simp add: listQuantumTasks_body_def Let_def)

lemma devices_body_object: "\<exists>kvs. listDevices_body type0 provider status0 = JObj kvs"
  by (simp add: listDevices_body_def Let_def)

lemma apiRequest_object:
  assumes "present (conf w ''accessKeyId'')" and "present (conf w ''secretAccessKey'')"
  shows "\<exists>req s. JSON_stringify (JObj kvs) = Some s \<and> s \<noteq> [] \<and> hd s = CHR ''{''
     \<and> snd (apiRequest cr w meth path (JObj kvs) params) = [ClockRead, HttpCall req]
     \<and> req_data req = Some s
     \<and> map_of (req_headers req) ''x-amz-content-sha256'' = Some (hex (sha256 cr s))"
proof -
  obtain req s where *: "body_string (if JObj kvs = JUndefined then JNull else JObj kvs) = Some s"
     "snd (apiRequest cr w meth path (JObj kvs) params) = [ClockRead, HttpCall req]"
     "req_data req = (if s = [] then None else Some s)"
     "map_of (req_headers req) ''x-amz-content-sha256'' = Some (hex (sha256 cr s))"
    using apiRequest_body [OF assms] by blast
  from *(1) have s: "JSON_stringify (JObj kvs) = Some s"
    by (simp add: body_string_def)
  then have "s \<noteq> []" "hd s = CHR ''{''" by auto
  with * s show ?thesis by auto
qed

text \<open>
  Claim C7. A list-tasks call with status \<^verbatim>\<open>COMPLETED\<close>, \<^verbatim>\<open>maxResults\<close> 10 and no
  device ARN sends one request whose body is exactly the bytes
  \<^verbatim>\<open>{"maxResults":10,"filters":[{"name":"status","values":["COMPLETED"]}]}\<close>, and the
  \<^verbatim>\<open>x-amz-content-sha256\<close> header it carries is the hexadecimal SHA-256 of these bytes.
\<close>

theorem list_tasks_body_bytes:
  assumes \<open>present (conf w ''accessKeyId'')\<close> and \<open>present (conf w ''secretAccessKey'')\<close>
    and \<open>\<not> truthy deviceArn\<close>
  shows \<open>\<exists>req.
      snd (listQuantumTasks cr w deviceArn (JStr ''COMPLETED'') (JNum 10)) = [ClockRead, HttpCall req]
    \<and> req_data req = Some ''{"maxResults":10,"filters":[{"name":"status","values":["COMPLETED"]}]}''
    \<and> map_of (req_headers req) ''x-amz-content-sha256'' =
        Some (hex (sha256 cr ''{"maxResults":10,"filters":[{"name":"status","values":["COMPLETED"]}]}''))\<close>
proof -
  obtain kvs where kvs: "listQuantumTasks_body deviceArn (JStr ''COMPLETED'') (JNum 10) = JObj kvs"
    using tasks_body_object by blast
  from apiRequest_object [OF assms(1,2), of kvs cr "''POST''" "''/quantum-tasks''" JUndefined]
    tasks_body_string [OF assms(3)]
  show ?thesis
    by (auto simp add: listQuantumTasks_def snd_list_field kvs)
qed

theorem list_tasks_body_bytes_witness:
  \<open>\<exists>req.
      snd (listQuantumTasks toy_crypto (toy_world (Inr \<lparr>status = 200, data = JObj []\<rparr>))
             JUndefined (JStr ''COMPLETED'') (JNum 10)) = [ClockRead, HttpCall req]
    \<and> req_data req = Some ''{"maxResults":10,"filters":[{"name":"status","values":["COMPLETED"]}]}''
    \<and> map_of (req_headers req) ''x-amz-content-sha256'' = Some ''7b22''\<close>
proof -
  have f: "\<not> truthy JUndefined" by simp
  from list_tasks_body_bytes [OF toy_credentials f, where cr = toy_crypto
      and out1 = "Inr \<lparr>status = 200, data = JObj []\<rparr>"]
  show ?thesis by (simp add: toy_crypto_def hex_def hexdigit_def)
qed


text \<open>
  Claim C8. The string \<open>s\<close> hashed into \<^verbatim>\<open>x-amz-content-sha256\<close> is the empty string
  for an absent body (\<^verbatim>\<open>null\<close>, or \<^verbatim>\<open>undefined\<close>, which the default turns into
  \<^verbatim>\<open>null\<close>), and no body is handed to the transport then. For a body that is present,
  that is, one that passes the test \<^verbatim>\<open>body ? ... : ''\<close> (every object and array, so
  every body the operations build), \<open>s\<close> is its JSON serialization, it is not empty,
  and this same string is the body handed to the transport.
\<close>

theorem body_hashed_is_body_sent:
  assumes "present (conf w ''accessKeyId'')" and "present (conf w ''secretAccessKey'')"
  shows "\<exists>req s.
      body_string (if body = JUndefined then JNull else body) = Some s
    \<and> snd (apiRequest cr w meth path body params) = [ClockRead, HttpCall req]
    \<and> map_of (req_headers req) ''x-amz-content-sha256'' = Some (hex (sha256 cr s))
    \<and> (body = JNull \<or> body = JUndefined \<longrightarrow> s = [] \<and> req_data req = None)
    \<and> (truthy body \<longrightarrow> JSON_stringify body = Some s \<and> s \<noteq> [] \<and> req_data req = Some s)
    \<and> (\<forall>kvs. body = JObj kvs \<longrightarrow> JSON_stringify body = Some s \<and> req_data req = Some s)
    \<and> (\<not> truthy body \<longrightarrow> s = [] \<and> req_data req = None)"
proof -
  obtain req s where *: "body_string (if body = JUndefined then JNull else body) = Some s"
     "snd (apiRequest cr w meth path body params) = [ClockRead, HttpCall req]"
     "req_data req = (if s = [] then None else Some s)"
     "map_of (req_headers req) ''x-amz-content-sha256'' = Some (hex (sha256 cr s))"
    using apiRequest_body [OF assms] by blast
  have absent: "s = [] \<and> req_data req = None" if "\<not> truthy body"
    using that * by (auto simp: body_string_def split: if_splits)
  have there: "JSON_stringify body = Some s \<and> s \<noteq> [] \<and> req_data req = Some s" if "truthy body"
  proof -
    from that have "body \<noteq> JUndefined" by auto
    with *(1) that have s: "JSON_stringify body = Some s" by (simp add: body_string_def)
    with that have "s \<noteq> []" by (rule stringify_nonempty)
    with s *(3) show ?thesis by simp
  qed
  have "(body = JNull \<or> body = JUndefined \<longrightarrow> s = [] \<and> req_data req = None)"
    using absent by auto
  moreover have "(\<forall>kvs. body = JObj kvs \<longrightarrow> JSON_stringify body = Some s \<and> req_data req = Some s)"
    using there by auto
  ultimately show ?thesis using * absent there by blast
qed

theorem body_hashed_is_body_sent_witness:
  "\<exists>req.
      snd (apiRequest toy_crypto (toy_world (Inr \<lparr>status = 200, data = JObj []\<rparr>))
             ''GET'' ''/jobs'' JNull JNull) = [ClockRead, HttpCall req]
    \<and> map_of (req_headers req) ''x-amz-content-sha256'' = Some (hex (sha256 toy_crypto []))
    \<and> req_data req = None"
proof -
  from body_hashed_is_body_sent [OF toy_credentials, where cr = toy_crypto
      and out1 = "Inr \<lparr>status = 200, data = JObj []\<rparr>" and body = JNull and meth = "''GET''"
      and path = "''/jobs''" and params = JNull]
  show ?thesis by auto
qed

lemma region_default_apiRequest:
  assumes "conf w ''region'' = None"
  shows "apiRequest cr w meth path body params =
         apiRequest cr (w\<lparr>conf := (conf w)(''region'' \<mapsto> ''us-east-1'')\<rparr>) meth path body params"
  using assms by (simp add: apiRequest_def str_or_def Let_def split: sum.splits)

text \<open>
  Claim C9. With no region in the configuration, the request is signed for the region
  \<^verbatim>\<open>us-east-1\<close>: the endpoint and the \<^verbatim>\<open>host\<close> header name
  \<^verbatim>\<open>braket.us-east-1.amazonaws.com\<close>, the credential scope is
  dateStamp\<^verbatim>\<open>/us-east-1/braket/aws4_request\<close>, and the signing key is derived over
  \<^verbatim>\<open>us-east-1\<close>. \<open>apiRequest\<close> and each of the ten operations behave exactly as with
  the region set to \<^verbatim>\<open>us-east-1\<close>.
\<close>

theorem region_defaults_to_us_east_1:
  assumes "present (conf w ''accessKeyId'')" and "present (conf w ''secretAccessKey'')"
    and "conf w ''region'' = None"
  shows "\<exists>sg.
      signedRequest cr (clock w) meth path (if body = JUndefined then JNull else body) ''us-east-1''
          (the (conf w ''accessKeyId'')) (the (conf w ''secretAccessKey'')) (conf w ''sessionToken'') = Inr sg
    \<and> snd (apiRequest cr w meth path body params) =
          [ClockRead, HttpCall (axios_config meth sg (if params = JUndefined then JNull else params))]
    \<and> endpoint sg = ''https://braket.us-east-1.amazonaws.com'' @ path
    \<and> map_of (headers sg) ''host'' = Some ''braket.us-east-1.amazonaws.com''
    \<and> (let amzDate = getAmzDate (clock w);
            dateStamp = take 8 amzDate;
            contentHash = hex (sha256 cr (bodyStr sg));
            hs = build_headers ''braket.us-east-1.amazonaws.com'' amzDate contentHash (conf w ''sessionToken'');
            scope = dateStamp @ ''/us-east-1/braket/aws4_request'';
            kDate = hmac_sha256 cr (''AWS4'' @ the (conf w ''secretAccessKey'')) dateStamp;
            kRegion = hmac_sha256 cr kDate ''us-east-1'';
            kService = hmac_sha256 cr kRegion ''braket'';
            kSigning = hmac_sha256 cr kService ''aws4_request''
        in map_of (headers sg) ''authorization'' =
             Some (''AWS4-HMAC-SHA256 Credential='' @ the (conf w ''accessKeyId'') @ ''/'' @ scope
                   @ '', SignedHeaders='' @ signedHeaders_of hs @ '', Signature=''
                   @ hex (hmac_sha256 cr kSigning
                       (stringToSign_of cr amzDate scope (canonicalRequest_of meth path hs contentHash)))))
    \<and> apiRequest cr w meth path body params =
        apiRequest cr (w\<lparr>conf := (conf w)(''region'' \<mapsto> ''us-east-1'')\<rparr>) meth path body params
    \<and> listQuantumTasks cr w deviceArn status0 maxResults =
        listQuantumTasks cr (w\<lparr>conf := (conf w)(''region'' \<mapsto> ''us-east-1'')\<rparr>) deviceArn status0 maxResults
    \<and> getQuantumTask cr w taskId =
        getQuantumTask cr (w\<lparr>conf := (conf w)(''region'' \<mapsto> ''us-east-1'')\<rparr>) taskId
    \<and> createQuantumTask cr w deviceArn shots outputS3Bucket outputS3KeyPrefix action =
        createQuantumTask cr (w\<lparr>conf := (conf w)(''region'' \<mapsto> ''us-east-1'')\<rparr>)
          deviceArn shots outputS3Bucket outputS3KeyPrefix action
    \<and> cancelQuantumTask cr w taskId =
        cancelQuantumTask cr (w\<lparr>conf := (conf w)(''region'' \<mapsto> ''us-east-1'')\<rparr>) taskId
    \<and> listDevices cr w type0 provider status0 =
        listDevices cr (w\<lparr>conf := (conf w)(''region'' \<mapsto> ''us-east-1'')\<rparr>) type0 provider status0
    \<and> getDevice cr w deviceArn =
        getDevice cr (w\<lparr>conf := (conf w)(''region'' \<mapsto> ''us-east-1'')\<rparr>) deviceArn
    \<and> createJob cr w algorithmSpecification instanceConfig jobName outputDataConfig roleArn checkpointConfig =
        createJob cr (w\<lparr>conf := (conf w)(''region'' \<mapsto> ''us-east-1'')\<rparr>)
          algorithmSpecification instanceConfig jobName outputDataConfig roleArn checkpointConfig
    \<and> getJob cr w jobName = getJob cr (w\<lparr>conf := (conf w)(''region'' \<mapsto> ''us-east-1'')\<rparr>) jobName
    \<and> listJobs cr w maxResults state =
        listJobs cr (w\<lparr>conf := (conf w)(''region'' \<mapsto> ''us-east-1'')\<rparr>) maxResults state
    \<and> cancelJob cr w jobName = cancelJob cr (w\<lparr>conf := (conf w)(''region'' \<mapsto> ''us-east-1'')\<rparr>) jobName"
proof -
  have r: "str_or (conf w ''region'') ''us-east-1'' = ''us-east-1''"
    using assms(3) by (simp add: str_or_def)
  obtain sg where sg: "signedRequest cr (clock w) meth path (if body = JUndefined then JNull else body)
          ''us-east-1'' (the (conf w ''accessKeyId'')) (the (conf w ''secretAccessKey''))
          (conf w ''sessionToken'') = Inr sg"
    and ev: "snd (apiRequest cr w meth path body params) =
          [ClockRead, HttpCall (axios_config meth sg (if params = JUndefined then JNull else params))]"
    using apiRequest_sends [OF assms(1,2), of cr meth path body params] unfolding r by blast
  note d = region_default_apiRequest [OF assms(3)]
  have ops: "listQuantumTasks cr w deviceArn status0 maxResults =
        listQuantumTasks cr (w\<lparr>conf := (conf w)(''region'' \<mapsto> ''us-east-1'')\<rparr>) deviceArn status0 maxResults"
    "getQuantumTask cr w taskId =
        getQuantumTask cr (w\<lparr>conf := (conf w)(''region'' \<mapsto> ''us-east-1'')\<rparr>) taskId"
    "createQuantumTask cr w deviceArn shots outputS3Bucket outputS3KeyPrefix action =
        createQuantumTask cr (w\<lparr>conf := (conf w)(''region'' \<mapsto> ''us-east-1'')\<rparr>)
          deviceArn shots outputS3Bucket outputS3KeyPrefix action"
    "cancelQuantumTask cr w taskId =
        cancelQuantumTask cr (w\<lparr>conf := (conf w)(''region'' \<mapsto> ''us-east-1'')\<rparr>) taskId"
    "listDevices cr w type0 provider status0 =
        listDevices cr (w\<lparr>conf := (conf w)(''region'' \<mapsto> ''us-east-1'')\<rparr>) type0 provider status0"
    "getDevice cr w deviceArn =
        getDevice cr (w\<lparr>conf := (conf w)(''region'' \<mapsto> ''us-east-1'')\<rparr>) deviceArn"
    "createJob cr w algorithmSpecification instanceConfig jobName outputDataConfig roleArn checkpointConfig =
        createJob cr (w\<lparr>conf := (conf w)(''region'' \<mapsto> ''us-east-1'')\<rparr>)
          algorithmSpecification instanceConfig jobName outputDataConfig roleArn checkpointConfig"
    "getJob cr w jobName = getJob cr (w\<lparr>conf := (conf w)(''region'' \<mapsto> ''us-east-1'')\<rparr>) jobName"
    "listJobs cr w maxResults state =
        listJobs cr (w\<lparr>conf := (conf w)(''region'' \<mapsto> ''us-east-1'')\<rparr>) maxResults state"
    "cancelJob cr w jobName = cancelJob cr (w\<lparr>conf := (conf w)(''region'' \<mapsto> ''us-east-1'')\<rparr>) jobName"
    unfolding listQuantumTasks_def getQuantumTask_def createQuantumTask_def cancelQuantumTask_def
      listDevices_def getDevice_def createJob_def getJob_def listJobs_def cancelJob_def Let_def
    by (simp_all only: d [symmetric])
  have auth: "map_of (headers sg) ''authorization'' =
     Some (''AWS4-HMAC-SHA256 Credential='' @ the (conf w ''accessKeyId'') @ ''/''
           @ take 8 (getAmzDate (clock w)) @ ''/us-east-1/braket/aws4_request''
           @ '', SignedHeaders=''
           @ signedHeaders_of (build_headers ''braket.us-east-1.amazonaws.com'' (getAmzDate (clock w))
                 (hex (sha256 cr (bodyStr sg))) (conf w ''sessionToken''))
           @ '', Signature=''
           @ hex (hmac_sha256 cr
               (getSignatureKey cr (the (conf w ''secretAccessKey'')) (take 8 (getAmzDate (clock w)))
                  ''us-east-1'' ''braket'')
               (stringToSign_of cr (getAmzDate (clock w))
                  (take 8 (getAmzDate (clock w)) @ ''/us-east-1/braket/aws4_request'')
                  (canonicalRequest_of meth path
                     (build_headers ''braket.us-east-1.amazonaws.com'' (getAmzDate (clock w))
                        (hex (sha256 cr (bodyStr sg))) (conf w ''sessionToken''))
                     (hex (sha256 cr (bodyStr sg)))))))"
    using authorization_of_signedRequest [OF sg] by simp
  have main: "endpoint sg = ''https://braket.us-east-1.amazonaws.com'' @ path"
    "map_of (headers sg) ''host'' = Some ''braket.us-east-1.amazonaws.com''"
    using signedRequest_facts(3,4) [OF sg] by simp_all
  show ?thesis
    apply (rule exI [of _ sg])
    apply (intro conjI)
    apply (rule sg) apply (rule ev) apply (rule main(1)) apply (rule main(2))
    apply (simp add: Let_def auth getSignatureKey_def sign_def)
    apply (rule d)
    apply (rule ops)+
    done
qed

theorem region_defaults_to_us_east_1_witness:
  "conf (toy_world (Inr \<lparr>status = 200, data = JObj []\<rparr>)) ''region'' = None
   \<and> (\<exists>sg. snd (apiRequest toy_crypto (toy_world (Inr \<lparr>status = 200, data = JObj []\<rparr>))
                 ''GET'' ''/devices/d1'' JNull JNull) =
            [ClockRead, HttpCall (axios_config ''GET'' sg JNull)]
         \<and> endpoint sg = ''https://braket.us-east-1.amazonaws.com/devices/d1''
         \<and> map_of (headers sg) ''host'' = Some ''braket.us-east-1.amazonaws.com'')"
proof -
  have n: "conf (toy_world (Inr \<lparr>status = 200, data = JObj []\<rparr>)) ''region'' = None"
    by (simp add: toy_world_def toy_conf_def)
  from region_defaults_to_us_east_1 [OF toy_credentials n, where cr = toy_crypto
      and body = JNull and meth = "''GET''" and path = "''/devices/d1''" and params = JNull]
  obtain sg where "snd (apiRequest toy_crypto (toy_world (Inr \<lparr>status = 200, data = JObj []\<rparr>))
                 ''GET'' ''/devices/d1'' JNull JNull) =
            [ClockRead, HttpCall (axios_config ''GET'' sg (if JNull = JUndefined then JNull else JNull))]"
    and "endpoint sg = ''https://braket.us-east-1.amazonaws.com'' @ ''/devices/d1''"
    and "map_of (headers sg) ''host'' = Some ''braket.us-east-1.amazonaws.com''"
    by blast
  with n show ?thesis by auto
qed


lemma devices_body_empty:
  "\<not> truthy type0 \<Longrightarrow> \<not> truthy provider \<Longrightarrow> \<not> truthy status0 \<Longrightarrow>
     listDevices_body type0 provider status0 = JObj []"
  by (simp add: listDevices_body_def)

text \<open>
  Claim C10. A list-devices call with no filter sends the two bytes \<^verbatim>\<open>{}\<close> as its body
  and hashes them. Whatever their arguments, the two POST list operations send a body
  that starts with an opening brace: the string they hash is never the empty string.
\<close>

theorem list_devices_empty_object_body:
  assumes "present (conf w ''accessKeyId'')" and "present (conf w ''secretAccessKey'')"
  shows "(\<not> truthy type0 \<and> \<not> truthy provider \<and> \<not> truthy status0 \<longrightarrow>
            (\<exists>req. snd (listDevices cr w type0 provider status0) = [ClockRead, HttpCall req]
               \<and> req_data req = Some ''{}''
               \<and> map_of (req_headers req) ''x-amz-content-sha256'' = Some (hex (sha256 cr ''{}''))))
       \<and> (\<exists>req s. snd (listDevices cr w type0 provider status0) = [ClockRead, HttpCall req]
               \<and> req_method req = ''POST''
               \<and> req_data req = Some s \<and> s \<noteq> [] \<and> hd s = CHR ''{''
               \<and> map_of (req_headers req) ''x-amz-content-sha256'' = Some (hex (sha256 cr s)))
       \<and> (\<exists>req s. snd (listQuantumTasks cr w deviceArn status0 maxResults) = [ClockRead, HttpCall req]
               \<and> req_method req = ''POST''
               \<and> req_data req = Some s \<and> s \<noteq> [] \<and> hd s = CHR ''{''
               \<and> map_of (req_headers req) ''x-amz-content-sha256'' = Some (hex (sha256 cr s)))"
proof -
  have post: "snd (apiRequest cr w ''POST'' p b q) = [ClockRead, HttpCall req] \<Longrightarrow> req_method req = ''POST''"
    for p b q req
    using apiRequest_sends [OF assms, of cr "''POST''" p b q] by (auto simp: axios_config_def)
  obtain kd where kd: "listDevices_body type0 provider status0 = JObj kd"
    using devices_body_object by blast
  obtain kt where kt: "listQuantumTasks_body deviceArn status0 maxResults = JObj kt"
    using tasks_body_object by blast
  have dev: "\<exists>req s. snd (listDevices cr w type0 provider status0) = [ClockRead, HttpCall req]
               \<and> req_method req = ''POST''
               \<and> req_data req = Some s \<and> s \<noteq> [] \<and> hd s = CHR ''{''
               \<and> map_of (req_headers req) ''x-amz-content-sha256'' = Some (hex (sha256 cr s))"
    using apiRequest_object [OF assms, of kd cr "''POST''" "''/devices''" JUndefined] post
    by (fastforce simp add: listDevices_def snd_list_field kd)
  have tasks: "\<exists>req s. snd (listQuantumTasks cr w deviceArn status0 maxResults) = [ClockRead, HttpCall req]
               \<and> req_method req = ''POST''
               \<and> req_data req = Some s \<and> s \<noteq> [] \<and> hd s = CHR ''{''
               \<and> map_of (req_headers req) ''x-amz-content-sha256'' = Some (hex (sha256 cr s))"
    using apiRequest_object [OF assms, of kt cr "''POST''" "''/quantum-tasks''" JUndefined] post
    by (fastforce simp add: listQuantumTasks_def snd_list_field kt)
  have empty: "\<exists>req. snd (listDevices cr w type0 provider status0) = [ClockRead, HttpCall req]
               \<and> req_data req = Some ''{}''
               \<and> map_of (req_headers req) ''x-amz-content-sha256'' = Some (hex (sha256 cr ''{}''))"
    if "\<not> truthy type0" "\<not> truthy provider" "\<not> truthy status0"
    using apiRequest_object [OF assms, of "[]" cr "''POST''" "''/devices''" JUndefined]
    by (auto simp add: listDevices_def snd_list_field devices_body_empty [OF that])
  from dev tasks empty show ?thesis by blast
qed

theorem list_devices_empty_object_body_witness:
  "\<exists>req. snd (listDevices toy_crypto (toy_world (Inr \<lparr>status = 200, data = JObj []\<rparr>))
             JUndefined JUndefined JUndefined) = [ClockRead, HttpCall req]
      \<and> req_data req = Some ''{}''
      \<and> map_of (req_headers req) ''x-amz-content-sha256'' = Some ''7b7d''"
proof -
  have "hex (sha256 toy_crypto ''{}'') = ''7b7d''"
    by (simp add: toy_crypto_def hex_def hexdigit_def)
  with list_devices_empty_object_body [OF toy_credentials, where cr = toy_crypto
      and out1 = "Inr \<lparr>status = 200, data = JObj []\<rparr>" and ?type0.0 = JUndefined and provider = JUndefined
      and ?status0.0 = JUndefined, THEN conjunct1]
  show ?thesis by simp
qed

end
